theory Spec2Isabelle
  imports Main "HOL-Library.Word"
begin

section \<open>The MQTT synchronization broker of the worker package (worker/broker.go)\<close>

subsection \<open>Constants and data\<close>

text \<open>
  \<open>MQTTAPI\<close>, \<open>proto.NodeID\<close> and \<open>proto.DatabaseID\<close> are Go string types; the
  conversions between them and \<open>string\<close> are the identity.
\<close>

type_synonym MQTTAPI = string
type_synonym NodeID = string
type_synonym DatabaseID = string

definition MQTTNewest :: MQTTAPI where "MQTTNewest = ''newest''"
definition DSNList :: MQTTAPI where "DSNList = ''dsnlist''"
definition MQTTWrite :: MQTTAPI where "MQTTWrite = ''write''"
definition MQTTReplay :: MQTTAPI where "MQTTReplay = ''replay''"
definition MQTTCreate :: MQTTAPI where "MQTTCreate = ''create''"
definition MQTTInvalid :: MQTTAPI where "MQTTInvalid = ''''"

definition publishPrefix :: string where "publishPrefix = ''/cql/miner/''"
definition listenPrefix :: string where "listenPrefix = ''/cql/client/''"

subsection \<open>The two functions of Go's strings package that the decoder calls\<close>

text \<open>
  \<open>strings.TrimPrefix(s, prefix)\<close> returns \<open>s\<close> without the leading \<open>prefix\<close>, and
  \<open>s\<close> itself when it does not start with \<open>prefix\<close>.
\<close>

definition HasPrefix :: "string \<Rightarrow> string \<Rightarrow> bool" where
  "HasPrefix s p = (take (length p) s = p)"

definition TrimPrefix :: "string \<Rightarrow> string \<Rightarrow> string" where
  "TrimPrefix s p = (if HasPrefix s p then drop (length p) s else s)"

text \<open>
  \<open>strings.Split(s, sep)\<close> for a separator of one byte, which is how the decoder calls
  it (\<open>"/"\<close>); the separator is that byte. The result holds the substrings between the
  occurrences of the separator; a string without it (the empty string too) gives the
  one-element slice holding it. \<open>SplitFrom sep cur s\<close> scans \<open>s\<close> with \<open>cur\<close> the piece
  read so far.
\<close>

fun SplitFrom :: "char \<Rightarrow> string \<Rightarrow> string \<Rightarrow> string list" where
  "SplitFrom sep cur [] = [cur]"
| "SplitFrom sep cur (c # cs) =
     (if c = sep then cur # SplitFrom sep [] cs else SplitFrom sep (cur @ [c]) cs)"

definition Split :: "string \<Rightarrow> char \<Rightarrow> string list" where
  "Split s sep = SplitFrom sep [] s"

subsection \<open>decodeTopicAPI\<close>

text \<open>
  The named results \<open>clientID\<close>, \<open>databaseID\<close>, \<open>apiName\<close> start as empty strings.
  The bare \<open>return\<close> on a length of 0 or above 3 gives them back untouched; the other
  lengths fill them and fall through to the validity check.
\<close>

definition valid_check :: "MQTTAPI \<Rightarrow> MQTTAPI" where
  "valid_check apiName =
     (if apiName \<noteq> MQTTWrite \<and> apiName \<noteq> MQTTReplay \<and> apiName \<noteq> MQTTCreate
      then MQTTInvalid else apiName)"

definition decodeTopicAPI :: "string \<Rightarrow> NodeID \<times> DatabaseID \<times> MQTTAPI" where
  "decodeTopicAPI topic =
     (let args = Split (TrimPrefix topic listenPrefix) CHR ''/'' in
      if length args = 0 \<or> length args > 3 then ([], [], [])
      else if length args = 1 then (args ! 0, [], valid_check [])
      else if length args = 2 then
        (if args ! 1 = MQTTCreate then (args ! 0, [], valid_check MQTTCreate)
         else (args ! 0, args ! 1, valid_check []))
      else if length args = 3 then (args ! 0, args ! 1, valid_check (args ! 2))
      else ([], [], []))"

subsection \<open>Payloads, events, requests and blocks\<close>

text \<open>
  Go's \<open>int32\<close> is a \<open>32 word\<close> read as two's complement and \<open>uint64\<close> a
  \<open>64 word\<close>. \<open>BlockIndex\<close>, \<open>IndexStart\<close> and \<open>IndexEnd\<close> are Go \<open>int\<close>s that
  the broker only copies and compares, so they are their integer values. The statement
  type \<open>types.Query\<close> is declared outside this file: it is the type parameter \<open>'q\<close>.
\<close>

type_synonym int32 = "32 word"
type_synonym uint64 = "64 word"
type_synonym bytes = "8 word list"
type_synonym Timestamp = int

datatype error = Err string

record 'q BrokerPayload =
  BlockID :: int32
  BlockIndex :: int
  ClientID :: NodeID
  ClientSequence :: uint64
  Events :: "'q list"
  BlockStart :: int32
  IndexStart :: int
  BlockEnd :: int32
  IndexEnd :: int

record 'q SubscribeEvent =
  EvClientID :: NodeID
  EvDatabaseID :: DatabaseID
  ApiName :: MQTTAPI
  Payload :: "'q BrokerPayload"

text \<open>
  The request types of package \<open>types\<close>, with the fields the broker writes and reads:
  \<open>Request.Header\<close> (the \<open>RequestHeader\<close> embedded in the signed header) and
  \<open>Request.Payload.Queries\<close>. A block exposes its transactions \<open>QueryTxs\<close>, each
  standing for its \<open>Request\<close>.
\<close>

datatype QueryType = ReadQuery | WriteQuery

record RequestHeader =
  QueryType :: QueryType
  NodeID :: NodeID
  DatabaseID :: DatabaseID
  ConnectionID :: uint64
  SeqNo :: uint64
  Timestamp :: Timestamp

record 'q RequestPayload =
  Queries :: "'q list"

record 'q Request =
  Header :: RequestHeader
  ReqPayload :: "'q RequestPayload"

record 'q Block =
  QueryTxs :: "'q Request list"

subsection \<open>Collaborators\<close>

text \<open>
  A database handle gives its identifier, its chain reader and its query executor.
  \<open>FetchBlockByCount db count\<close> is \<open>db.chain.FetchBlockByCount(count)\<close>: an error, or
  the block and its resolved count (the third result is discarded by both callers).
  \<open>Query db req\<close> is the error of \<open>db.Query(req)\<close>, \<open>None\<close> for \<open>nil\<close> (its
  response is discarded by the caller).
\<close>

record 'q Database =
  dbID :: DatabaseID
  FetchBlockByCount :: "int32 \<Rightarrow> error + ('q Block \<times> int32)"
  Query :: "'q Request \<Rightarrow> error option"

text \<open>
  Modelled from the spec: the chain reader \<open>FetchBlockByCount\<close> is declared outside
  this file. The spec gives \<open>fetchBlock(position) -> (block, resolvedCount, hasMore,
  error)\<close>, where position \<open>-1\<close> means the most recent block. Over a chain given as
  the list of its blocks, counted from 0, a negative position resolves to the last block
  and a position inside the chain to that block; anything else is an error.
\<close>

definition chain_of_blocks :: "'q Block list \<Rightarrow> int32 \<Rightarrow> error + ('q Block \<times> int32)" where
  "chain_of_blocks bs count =
     (if bs = [] then Inl (Err ''no block'')
      else if count <s 0 then Inr (last bs, word_of_nat (length bs - 1))
      else if nat (sint count) < length bs then Inr (bs ! nat (sint count), count)
      else Inl (Err ''no such block''))"

text \<open>
  The token of an MQTT operation: \<open>Wait\<close> is what \<open>token.Wait()\<close> returns once the
  operation has completed, \<open>Error\<close> is \<open>token.Error()\<close>, \<open>None\<close> for \<open>nil\<close>.
\<close>

record Token =
  Wait :: bool
  Error :: "error option"

record MQTTBrokerInfo =
  Addr :: string
  User :: string
  Password :: string

text \<open>
  The client. \<open>ListenTopic\<close> and \<open>PublishTopicPrefix\<close> are the struct's fields and
  \<open>dbms\<close> is the registry \<open>dbms.dbMap\<close>, in the order in which \<open>Range\<close> visits it.
  The outside world the methods call is carried along: \<open>Client n\<close> is the token the
  transport returns for a \<open>Publish\<close> made after \<open>n\<close> earlier ones, \<open>Marshal\<close> and
  \<open>Unmarshal\<close> are \<open>json.Marshal\<close> and \<open>json.Unmarshal\<close> at the payload type.
\<close>

record 'q MQTTClient =
  Client :: "nat \<Rightarrow> Token"
  ListenTopic :: string
  PublishTopicPrefix :: string
  dbms :: "(DatabaseID \<times> 'q Database) list"
  Marshal :: "'q BrokerPayload \<Rightarrow> error + bytes"
  Unmarshal :: "bytes \<Rightarrow> error + 'q BrokerPayload"

text \<open>
  What the broker does to the world: the events pushed on its queue, the \<open>Publish\<close>
  calls (topic, quality of service, retained flag, payload), the requests handed to
  \<open>db.Query\<close>, the chain reads (database and position asked for) and the log (level and
  format string of each call, without its trailing newline). \<open>localTime\<close> is the value
  \<open>getLocalTime()\<close> returns.
\<close>

datatype level = DebugLevel | ErrorLevel

record 'q broker_state =
  subscribeEventQueue :: "'q SubscribeEvent list"
  published :: "(string \<times> nat \<times> bool \<times> bytes) list"
  queried :: "(DatabaseID \<times> 'q Request) list"
  fetched :: "(DatabaseID \<times> int32) list"
  logged :: "(level \<times> string) list"
  localTime :: Timestamp

definition Debugf :: "string \<Rightarrow> 'q broker_state \<Rightarrow> 'q broker_state" where
  "Debugf fmt s = s\<lparr>logged := logged s @ [(DebugLevel, fmt)]\<rparr>"

definition Errorf :: "string \<Rightarrow> 'q broker_state \<Rightarrow> 'q broker_state" where
  "Errorf fmt s = s\<lparr>logged := logged s @ [(ErrorLevel, fmt)]\<rparr>"

text \<open>\<open>dbms.dbMap.Load\<close>: the entry stored under a key, if there is one.\<close>

definition Load :: "(DatabaseID \<times> 'q Database) list \<Rightarrow> DatabaseID \<Rightarrow> 'q Database option" where
  "Load m k = map_of m k"

text \<open>
  Modelled from the spec: \<open>dbms.getMeta\<close> is declared outside this file. The spec
  gives the registry's \<open>lookup(databaseID) -> (databaseHandle, found)\<close>, which the
  write handler uses to resolve the event's database.
\<close>

definition getMeta :: "(DatabaseID \<times> 'q Database) list \<Rightarrow> DatabaseID \<Rightarrow> 'q Database option" where
  "getMeta m k = map_of m k"

subsection \<open>NewMQTTClient\<close>

text \<open>
  The constructor, given the token of \<open>Connect\<close>: no client for a nil configuration or
  a failed connection. Starting the two loops and subscribing are left to the caller of
  the model.
\<close>

definition NewMQTTClient ::
  "MQTTBrokerInfo option \<Rightarrow> (DatabaseID \<times> 'q Database) list \<Rightarrow> Token \<Rightarrow> (nat \<Rightarrow> Token) \<Rightarrow>
   ('q BrokerPayload \<Rightarrow> error + bytes) \<Rightarrow> (bytes \<Rightarrow> error + 'q BrokerPayload) \<Rightarrow>
   'q MQTTClient option" where
  "NewMQTTClient config d connect transport enc dec =
     (case config of
        None \<Rightarrow> None
      | Some cfg \<Rightarrow>
          if Wait connect \<and> Error connect \<noteq> None then None
          else Some \<lparr>Client = transport,
                     ListenTopic = listenPrefix @ ''#'',
                     PublishTopicPrefix = publishPrefix @ User cfg @ ''/'',
                     dbms = d, Marshal = enc, Unmarshal = dec\<rparr>)"

subsection \<open>PublishDSN\<close>

definition Publish ::
  "'q MQTTClient \<Rightarrow> string \<Rightarrow> nat \<Rightarrow> bool \<Rightarrow> bytes \<Rightarrow> 'q broker_state \<Rightarrow> Token \<times> 'q broker_state" where
  "Publish c topic qos retained payload s =
     (Client c (length (published s)),
      s\<lparr>published := published s @ [(topic, qos, retained, payload)]\<rparr>)"

definition PublishDSN ::
  "'q MQTTClient \<Rightarrow> MQTTAPI \<Rightarrow> DatabaseID \<Rightarrow> 'q BrokerPayload \<Rightarrow> NodeID \<Rightarrow> 'q broker_state \<Rightarrow>
   error option \<times> 'q broker_state" where
  "PublishDSN c apiName databaseID payload requestClient s =
     (case Marshal c payload of
        Inl err \<Rightarrow> (Some err, s)
      | Inr jsonBytes \<Rightarrow>
          (case (if apiName = MQTTNewest
                 then Inr (PublishTopicPrefix c @ databaseID @ ''/'' @ apiName)
                 else if apiName = MQTTReplay
                 then Inr (PublishTopicPrefix c @ databaseID @ ''/'' @ apiName @ ''/'' @ requestClient)
                 else Inl (Err (''Invalid miner push api name'' @ apiName))) of
             Inl err \<Rightarrow> (Some err, s)
           | Inr topic \<Rightarrow>
               (let (token, s') = Publish c topic 1 True jsonBytes s
                in if \<not> Wait token then (Error token, s') else (None, s'))))"

subsection \<open>subscribeCallback\<close>

record Message =
  Topic :: string
  MsgPayload :: bytes

definition subscribeCallback ::
  "'q MQTTClient \<Rightarrow> Message \<Rightarrow> 'q broker_state \<Rightarrow> 'q broker_state" where
  "subscribeCallback c msg s0 =
     (let s = Debugf ''TOPIC: %s'' s0;
          (clientID, databaseID, apiName) = decodeTopicAPI (Topic msg)
      in if apiName = '''' then Errorf ''Invalid Topic: %s, Payload: %s'' s
         else (case Unmarshal c (MsgPayload msg) of
                 Inl err \<Rightarrow> Errorf ''Invalid MSG: %s, err: %v'' s
               | Inr payload \<Rightarrow>
                   (let s1 = Debugf ''Payload: %v'' s
                    in s1\<lparr>subscribeEventQueue := subscribeEventQueue s1 @
                          [\<lparr>EvClientID = clientID, EvDatabaseID = databaseID,
                            ApiName = apiName, Payload = payload\<rparr>]\<rparr>)))"

subsection \<open>processWriteEvent\<close>

definition write_request :: "'q SubscribeEvent \<Rightarrow> Timestamp \<Rightarrow> 'q Request" where
  "write_request event now =
     \<lparr>Header = \<lparr>QueryType = WriteQuery,
                 NodeID = EvClientID event,
                 DatabaseID = EvDatabaseID event,
                 ConnectionID = 0,
                 SeqNo = ClientSequence (Payload event),
                 Timestamp = now\<rparr>,
      ReqPayload = \<lparr>Queries = Events (Payload event)\<rparr>\<rparr>"

definition processWriteEvent ::
  "'q MQTTClient \<Rightarrow> 'q SubscribeEvent \<Rightarrow> 'q broker_state \<Rightarrow> 'q broker_state" where
  "processWriteEvent c event s0 =
     (let s = Debugf ''Processed write event: %s %s %s'' s0
      in case getMeta (dbms c) (EvDatabaseID event) of
           None \<Rightarrow> Errorf ''MQTT write database not exist: %v'' s
         | Some db \<Rightarrow>
             (let req = write_request event (localTime s);
                  s1 = s\<lparr>queried := queried s @ [(dbID db, req)]\<rparr>
              in case Query db req of
                   Some err \<Rightarrow> Errorf ''MQTT write database failed: %v, err:%v'' s1
                 | None \<Rightarrow> s1))"

subsection \<open>processReplayEvent\<close>

text \<open>
  The payload built for a transaction of a fetched block; the replay fields keep their
  zero values.
\<close>

definition tx_payload :: "int32 \<Rightarrow> int \<Rightarrow> 'q Request \<Rightarrow> 'q BrokerPayload" where
  "tx_payload realCount index qat =
     \<lparr>BlockID = realCount,
      BlockIndex = index,
      ClientID = NodeID (Header qat),
      ClientSequence = SeqNo (Header qat),
      Events = Queries (ReqPayload qat),
      BlockStart = 0, IndexStart = 0, BlockEnd = 0, IndexEnd = 0\<rparr>"

text \<open>The range test in the body of the inner loop: \<open>continue\<close>, \<open>return\<close>, or go on to publish.\<close>

datatype range_action = Skip | Stop | Send

definition range_filter :: "int32 \<Rightarrow> int32 \<Rightarrow> int32 \<Rightarrow> int \<Rightarrow> int \<Rightarrow> int \<Rightarrow> range_action" where
  "range_filter blockIndex bStart bEnd index iStart iEnd =
     (if blockIndex = bStart then (if index < iStart then Skip else Send)
      else if blockIndex = bEnd then (if index > iEnd then Stop else Send)
      else Send)"

text \<open>
  The inner loop over \<open>block.QueryTxs\<close>, from position \<open>index\<close> on. It tells the outer
  loop whether the handler has returned.
\<close>

datatype flow = Continue | Return

fun replay_txs ::
  "'q MQTTClient \<Rightarrow> 'q BrokerPayload \<Rightarrow> int32 \<Rightarrow> int32 \<Rightarrow> int \<Rightarrow> 'q Request list \<Rightarrow>
   'q broker_state \<Rightarrow> flow \<times> 'q broker_state" where
  "replay_txs c req blockIndex realCount index [] s = (Continue, s)"
| "replay_txs c req blockIndex realCount index (qat # rest) s =
     (let payload = tx_payload realCount index qat in
      case range_filter blockIndex (BlockStart req) (BlockEnd req)
             index (IndexStart req) (IndexEnd req) of
        Skip \<Rightarrow> replay_txs c req blockIndex realCount (index + 1) rest s
      | Stop \<Rightarrow> (Return, s)
      | Send \<Rightarrow>
          (case PublishDSN c MQTTReplay (DatabaseID (Header qat)) payload (ClientID payload) s of
             (Some err, s') \<Rightarrow>
               (Return, Errorf ''MQTT publish replay api failed, databaseID: %v, payload: %v, err: %v'' s')
           | (None, s') \<Rightarrow> replay_txs c req blockIndex realCount (index + 1) rest s'))"

text \<open>
  The outer loop \<open>for blockIndex := bStart; blockIndex <= bEnd; blockIndex++\<close> over
  \<open>int32\<close>: the comparison is signed and the increment wraps, so the loop need not end
  (\<open>None\<close> is a run that never returns). Every round fetches position \<open>-1\<close>.
\<close>

partial_function (option) replay_blocks ::
  "'q MQTTClient \<Rightarrow> 'q Database \<Rightarrow> DatabaseID \<Rightarrow> 'q BrokerPayload \<Rightarrow> int32 \<Rightarrow>
   'q broker_state \<Rightarrow> 'q broker_state option" where
  "replay_blocks c db databaseID req blockIndex s =
     (if blockIndex \<le>s BlockEnd req then
        (let s1 = s\<lparr>fetched := fetched s @ [(databaseID, - 1)]\<rparr> in
         case FetchBlockByCount db (- 1) of
           Inl err \<Rightarrow> Some (Errorf ''MQTT fetch block failed, databaseID: %v, err: %v'' s1)
         | Inr (block, realCount) \<Rightarrow>
             (case replay_txs c req blockIndex realCount 0 (QueryTxs block) s1 of
                (Return, s2) \<Rightarrow> Some s2
              | (Continue, s2) \<Rightarrow> replay_blocks c db databaseID req (blockIndex + 1) s2))
      else Some s)"

definition processReplayEvent ::
  "'q MQTTClient \<Rightarrow> 'q SubscribeEvent \<Rightarrow> 'q broker_state \<Rightarrow> 'q broker_state option" where
  "processReplayEvent c event s0 =
     (let s = Debugf ''Processed replay event: %s %s %s'' s0;
          dbID = EvDatabaseID event
      in case Load (dbms c) dbID of
           None \<Rightarrow> Some (Errorf ''MQTT fetch block failed, databaseID not exist: %v'' s)
         | Some db \<Rightarrow> replay_blocks c db dbID (Payload event) (BlockStart (Payload event)) s)"

subsection \<open>processCreateEvent and the consumer loop\<close>

definition processCreateEvent ::
  "'q MQTTClient \<Rightarrow> 'q SubscribeEvent \<Rightarrow> 'q broker_state \<Rightarrow> 'q broker_state" where
  "processCreateEvent c event s = Debugf ''Create API does not support yet.'' s"

text \<open>The body of the consumer loop: the \<open>switch\<close> on the event's \<open>ApiName\<close>.\<close>

definition dispatch ::
  "'q MQTTClient \<Rightarrow> 'q SubscribeEvent \<Rightarrow> 'q broker_state \<Rightarrow> 'q broker_state option" where
  "dispatch c subscribeEvent s =
     (if ApiName subscribeEvent = MQTTWrite then Some (processWriteEvent c subscribeEvent s)
      else if ApiName subscribeEvent = MQTTReplay then processReplayEvent c subscribeEvent s
      else if ApiName subscribeEvent = MQTTCreate then Some (processCreateEvent c subscribeEvent s)
      else Some (Errorf ''Unknow API name %s'' s))"


subsection \<open>One tick of updateBlockLoop\<close>

text \<open>
  The loop over the transactions of the newest block: \<open>err\<close> is the variable that every
  round assigns and that the callback reads after the loop.
\<close>

fun newest_txs ::
  "'q MQTTClient \<Rightarrow> int32 \<Rightarrow> int \<Rightarrow> 'q Request list \<Rightarrow> error option \<Rightarrow> 'q broker_state \<Rightarrow>
   error option \<times> 'q broker_state" where
  "newest_txs c realCount index [] err s = (err, s)"
| "newest_txs c realCount index (qat # rest) err s =
     (let payload = tx_payload realCount index qat in
      case PublishDSN c MQTTNewest (DatabaseID (Header qat)) payload (ClientID payload) s of
        (Some e, s') \<Rightarrow>
          newest_txs c realCount (index + 1) rest (Some e)
            (Errorf ''MQTT publish newest api failed, databaseID: %v, payload: %v, err: %v'' s')
      | (None, s') \<Rightarrow> newest_txs c realCount (index + 1) rest None s')"

text \<open>The callback handed to \<open>dbMap.Range\<close>: its result tells \<open>Range\<close> whether to go on.\<close>

definition update_db ::
  "'q MQTTClient \<Rightarrow> 'q Database \<Rightarrow> 'q broker_state \<Rightarrow> bool \<times> 'q broker_state" where
  "update_db c db s =
     (let s1 = s\<lparr>fetched := fetched s @ [(dbID db, - 1)]\<rparr> in
      case FetchBlockByCount db (- 1) of
        Inl err \<Rightarrow> (False, Errorf ''MQTT fetch block failed: databaseID: %v, err: %v'' s1)
      | Inr (block, realCount) \<Rightarrow>
          (case newest_txs c realCount 0 (QueryTxs block) None s1 of
             (Some e, s2) \<Rightarrow> (False, s2)
           | (None, s2) \<Rightarrow> (True, s2)))"

text \<open>\<open>sync.Map.Range\<close>: the entries one after the other, until the callback returns false.\<close>

fun Range ::
  "('q Database \<Rightarrow> 'q broker_state \<Rightarrow> bool \<times> 'q broker_state) \<Rightarrow>
   (DatabaseID \<times> 'q Database) list \<Rightarrow> 'q broker_state \<Rightarrow> 'q broker_state" where
  "Range f [] s = s"
| "Range f ((k, rawDB) # entries) s =
     (case f rawDB s of
        (False, s') \<Rightarrow> s'
      | (True, s') \<Rightarrow> Range f entries s')"

definition updateBlockTick :: "'q MQTTClient \<Rightarrow> 'q broker_state \<Rightarrow> 'q broker_state" where
  "updateBlockTick c s = Range (update_db c) (dbms c) s"

subsection \<open>Test scenarios\<close>

text \<open>
  Concrete collaborators for running the handlers: tokens, databases over chains given
  as block lists, an encoder that writes a payload's block number and index as two
  bytes, a decoder that rejects every message, and a broker state with nothing done yet.
\<close>

definition ok_token :: Token where
  "ok_token = \<lparr>Wait = True, Error = None\<rparr>"

definition unacked_token :: Token where
  "unacked_token = \<lparr>Wait = False, Error = Some (Err ''not acknowledged'')\<rparr>"

definition test_tx :: "DatabaseID \<Rightarrow> NodeID \<Rightarrow> nat \<Rightarrow> string Request" where
  "test_tx d n k =
     \<lparr>Header = \<lparr>QueryType = WriteQuery, NodeID = n, DatabaseID = d, ConnectionID = 0,
                 SeqNo = word_of_nat k, Timestamp = 0\<rparr>,
      ReqPayload = \<lparr>Queries = []\<rparr>\<rparr>"

definition test_block :: "DatabaseID \<Rightarrow> nat \<Rightarrow> string Block" where
  "test_block d n = \<lparr>QueryTxs = map (test_tx d ''c1'') [0..<n]\<rparr>"

definition test_db ::
  "DatabaseID \<Rightarrow> string Block list \<Rightarrow> error option \<Rightarrow> string Database" where
  "test_db d bs answer =
     \<lparr>dbID = d, FetchBlockByCount = chain_of_blocks bs, Query = (\<lambda>req. answer)\<rparr>"

definition test_encode :: "string BrokerPayload \<Rightarrow> error + bytes" where
  "test_encode p = Inr [word_of_int (sint (BlockID p)), word_of_int (BlockIndex p)]"

definition test_client ::
  "(nat \<Rightarrow> Token) \<Rightarrow> (DatabaseID \<times> string Database) list \<Rightarrow> string MQTTClient" where
  "test_client transport d =
     \<lparr>Client = transport, ListenTopic = listenPrefix @ ''#'',
      PublishTopicPrefix = publishPrefix @ ''n1'' @ ''/'',
      dbms = d, Marshal = test_encode,
      Unmarshal = (\<lambda>b. Inl (Err ''unexpected end of JSON input''))\<rparr>"

definition idle :: "string broker_state" where
  "idle = \<lparr>subscribeEventQueue = [], published = [], queried = [], fetched = [], logged = [],
           localTime = 0\<rparr>"

definition test_event :: "MQTTAPI \<Rightarrow> int32 \<Rightarrow> int \<Rightarrow> int32 \<Rightarrow> int \<Rightarrow> string SubscribeEvent" where
  "test_event api bStart iStart bEnd iEnd =
     \<lparr>EvClientID = ''c9'', EvDatabaseID = ''db1'', ApiName = api,
      Payload = \<lparr>BlockID = 0, BlockIndex = 0, ClientID = ''c9'', ClientSequence = 7,
                 Events = [''INSERT INTO t VALUES (1)''],
                 BlockStart = bStart, IndexStart = iStart, BlockEnd = bEnd, IndexEnd = iEnd\<rparr>\<rparr>"

text \<open>
  The chain of the replay example: two blocks whose transactions have the indices
  0, 1, 2 and 0, 1.
\<close>

definition two_block_client :: "string MQTTClient" where
  "two_block_client =
     test_client (\<lambda>n. ok_token)
       [(''db1'', test_db ''db1'' [test_block ''db1'' 3, test_block ''db1'' 2] None)]"

text \<open>
  Two registered databases, the newest block of the first holding two transactions and
  that of the second one; the transport fails the first publish only.
\<close>

definition two_db_client :: "string MQTTClient" where
  "two_db_client =
     test_client (\<lambda>n. if n = 0 then unacked_token else ok_token)
       [(''db1'', test_db ''db1'' [test_block ''db1'' 2] None),
        (''db2'', test_db ''db2'' [test_block ''db2'' 1] None)]"



subsection \<open>Properties of the topic decoder\<close>

lemma SplitFrom_nonempty: "SplitFrom sep cur s \<noteq> []"
  by (induction sep cur s rule: SplitFrom.induct) auto

lemma Split_slash_nonempty: "Split s CHR ''/'' \<noteq> []"
  by (simp add: Split_def SplitFrom_nonempty)

lemma valid_check_cases:
  "valid_check a = (if a = ''write'' \<or> a = ''replay'' \<or> a = ''create'' then a else '''')"
  by (simp add: valid_check_def MQTTWrite_def MQTTReplay_def MQTTCreate_def MQTTInvalid_def)

text \<open>
  C3. The decoder is a total function of the topic and follows the segment contract,
  the segments being those of the topic without the listen prefix, split at \<open>/\<close>:
  one segment gives the client only; two give the client and either the create intent
  or a database with no intent; three give client, database and the third segment when
  it is write, replay or create, and the invalid intent otherwise; none or more than
  three give three empty fields. (Split never returns the empty slice.)
\<close>

theorem decodeTopicAPI_contract:
  "(let args = Split (TrimPrefix topic listenPrefix) CHR ''/'' in
     args \<noteq> [] \<and>
     (length args = 1 \<longrightarrow> decodeTopicAPI topic = (args ! 0, '''', MQTTInvalid)) \<and>
     (length args = 2 \<longrightarrow>
        decodeTopicAPI topic =
          (if args ! 1 = ''create'' then (args ! 0, '''', MQTTCreate)
           else (args ! 0, args ! 1, MQTTInvalid))) \<and>
     (length args = 3 \<longrightarrow>
        decodeTopicAPI topic =
          (args ! 0, args ! 1,
           if args ! 2 = ''write'' \<or> args ! 2 = ''replay'' \<or> args ! 2 = ''create''
           then args ! 2 else MQTTInvalid)) \<and>
     (length args = 0 \<or> length args > 3 \<longrightarrow>
        decodeTopicAPI topic = ('''', '''', MQTTInvalid)))"
  by (simp add: Let_def decodeTopicAPI_def valid_check_cases Split_slash_nonempty
      MQTTCreate_def MQTTInvalid_def)


lemma segments_one: "Split (TrimPrefix ''/cql/client/c1'' listenPrefix) CHR ''/'' = [''c1'']"
  by code_simp

lemma segments_create:
  "Split (TrimPrefix ''/cql/client/c1/create'' listenPrefix) CHR ''/'' = [''c1'', ''create'']"
  by code_simp

lemma segments_two: "Split (TrimPrefix ''c1/db1'' listenPrefix) CHR ''/'' = [''c1'', ''db1'']"
  by code_simp

lemma segments_replay:
  "Split (TrimPrefix ''/cql/client/c1/db1/replay'' listenPrefix) CHR ''/'' = [''c1'', ''db1'', ''replay'']"
  by code_simp

lemma segments_newest:
  "Split (TrimPrefix ''/cql/client/c1/db1/newest'' listenPrefix) CHR ''/'' = [''c1'', ''db1'', ''newest'']"
  by code_simp

lemma segments_four:
  "Split (TrimPrefix ''/cql/client/c1/db1/write/x'' listenPrefix) CHR ''/'' =
     [''c1'', ''db1'', ''write'', ''x'']"
  by code_simp

theorem decodeTopicAPI_contract_witness:
  "decodeTopicAPI ''/cql/client/c1'' = (''c1'', '''', MQTTInvalid) \<and>
   decodeTopicAPI ''/cql/client/c1/create'' = (''c1'', '''', MQTTCreate) \<and>
   decodeTopicAPI ''c1/db1'' = (''c1'', ''db1'', MQTTInvalid) \<and>
   decodeTopicAPI ''/cql/client/c1/db1/replay'' = (''c1'', ''db1'', ''replay'') \<and>
   decodeTopicAPI ''/cql/client/c1/db1/newest'' = (''c1'', ''db1'', MQTTInvalid) \<and>
   decodeTopicAPI ''/cql/client/c1/db1/write/x'' = ('''', '''', MQTTInvalid)"
  using decodeTopicAPI_contract [of "''/cql/client/c1''"]
    decodeTopicAPI_contract [of "''/cql/client/c1/create''"]
    decodeTopicAPI_contract [of "''c1/db1''"]
    decodeTopicAPI_contract [of "''/cql/client/c1/db1/replay''"]
    decodeTopicAPI_contract [of "''/cql/client/c1/db1/newest''"]
    decodeTopicAPI_contract [of "''/cql/client/c1/db1/write/x''"]
  unfolding segments_one segments_create segments_two segments_replay segments_newest
    segments_four Let_def
  by simp


subsection \<open>Properties of the publisher\<close>

text \<open>
  C5. On a client built by \<open>NewMQTTClient\<close> for node \<open>User cfg\<close>, whenever the payload
  serializes, a publish with the newest intent makes exactly one transport call, on the
  topic publish prefix, node, \<open>/\<close>, database, \<open>/newest\<close>, and one with the replay intent
  exactly one on the same with \<open>/replay/\<close> and the requesting client; with any other
  intent, and for a payload that does not serialize, the publisher returns an error and
  leaves the state, so the list of transport calls too, as it was.
\<close>

theorem PublishDSN_topics:
  assumes "NewMQTTClient (Some cfg) d connect transport enc dec = Some c"
  shows
    "(\<forall>b. enc payload = Inr b \<longrightarrow>
        PublishDSN c ''newest'' D payload C s =
          (let token = transport (length (published s))
           in (if \<not> Wait token then Error token else None,
               s\<lparr>published := published s @
                    [(publishPrefix @ User cfg @ ''/'' @ D @ ''/newest'', 1, True, b)]\<rparr>)) \<and>
        PublishDSN c ''replay'' D payload C s =
          (let token = transport (length (published s))
           in (if \<not> Wait token then Error token else None,
               s\<lparr>published := published s @
                    [(publishPrefix @ User cfg @ ''/'' @ D @ ''/replay/'' @ C, 1, True, b)]\<rparr>))) \<and>
     (\<forall>err. enc payload = Inl err \<longrightarrow> PublishDSN c api D payload C s = (Some err, s)) \<and>
     (api \<noteq> ''newest'' \<and> api \<noteq> ''replay'' \<longrightarrow>
        (\<exists>e. PublishDSN c api D payload C s = (Some e, s)))"
proof -
  have c: "c = \<lparr>Client = transport, ListenTopic = listenPrefix @ ''#'',
                PublishTopicPrefix = publishPrefix @ User cfg @ ''/'',
                dbms = d, Marshal = enc, Unmarshal = dec\<rparr>"
    using assms by (simp add: NewMQTTClient_def split: if_splits)
  show ?thesis
    unfolding c
    by (cases "enc payload")
      (simp_all add: PublishDSN_def Publish_def MQTTNewest_def MQTTReplay_def Let_def)
qed

lemma NewMQTTClient_test_client:
  "NewMQTTClient (Some \<lparr>Addr = ''broker:1883'', User = ''n1'', Password = ''secret''\<rparr>) []
     ok_token (\<lambda>n. ok_token) test_encode (\<lambda>b. Inl (Err ''unexpected end of JSON input'')) =
   Some (test_client (\<lambda>n. ok_token) [])"
  by (simp add: NewMQTTClient_def test_client_def ok_token_def)

theorem PublishDSN_topics_witness:
  "PublishDSN (test_client (\<lambda>n. ok_token) []) ''newest'' ''db1''
     (Payload (test_event ''replay'' 0 0 0 0)) ''c9'' idle =
     (None, idle\<lparr>published := [(''/cql/miner/n1/db1/newest'', 1, True, [0, 0])]\<rparr>) \<and>
   PublishDSN (test_client (\<lambda>n. ok_token) []) ''replay'' ''db1''
     (Payload (test_event ''replay'' 0 0 0 0)) ''c9'' idle =
     (None, idle\<lparr>published := [(''/cql/miner/n1/db1/replay/c9'', 1, True, [0, 0])]\<rparr>) \<and>
   (\<exists>e. PublishDSN (test_client (\<lambda>n. ok_token) []) ''write'' ''db1''
     (Payload (test_event ''replay'' 0 0 0 0)) ''c9'' idle = (Some e, idle))"
proof -
  have enc: "test_encode (Payload (test_event ''replay'' 0 0 0 0)) = Inr [0, 0]"
    by (simp add: test_encode_def test_event_def)
  show ?thesis
    using PublishDSN_topics [OF NewMQTTClient_test_client,
        of "Payload (test_event ''replay'' 0 0 0 0)" "''db1''" "''c9''" idle "''write''"] enc
    by (simp add: publishPrefix_def idle_def ok_token_def)
qed

text \<open>
  C2, at the failing input. A token whose \<open>Wait\<close> returns true and whose \<open>Error\<close> is not
  nil is a failed acknowledgement; \<open>PublishDSN\<close> tests \<open>!token.Wait()\<close> only and returns
  nil for it, whereas \<open>NewMQTTClient\<close> refuses the same token on \<open>Connect\<close>.
\<close>

theorem PublishDSN_acknowledgement_error_lost:
  "fst (PublishDSN (c\<lparr>Client := \<lambda>n. \<lparr>Wait = True, Error = Some e\<rparr>, Marshal := \<lambda>p. Inr b\<rparr>)
          MQTTNewest D payload C s) = None \<and>
   fst (PublishDSN (c\<lparr>Client := \<lambda>n. \<lparr>Wait = True, Error = Some e\<rparr>, Marshal := \<lambda>p. Inr b\<rparr>)
          MQTTReplay D payload C s) = None \<and>
   NewMQTTClient (Some cfg) d \<lparr>Wait = True, Error = Some e\<rparr> transport enc dec = None"
  by (simp add: PublishDSN_def Publish_def NewMQTTClient_def MQTTNewest_def MQTTReplay_def)

subsection \<open>Properties of the subscription callback and the consumer loop\<close>

text \<open>
  C8. For a message whose topic decodes to the invalid intent, or whose payload the
  decoder rejects, the callback pushes nothing on the queue, adds one error entry to the
  log after the topic's debug entry, touches nothing else, and returns (it is a total
  function with no error result).
\<close>

theorem subscribeCallback_drops_malformed:
  assumes "snd (snd (decodeTopicAPI (Topic msg))) = MQTTInvalid \<or>
           (\<exists>err. Unmarshal c (MsgPayload msg) = Inl err)"
  shows "subscribeEventQueue (subscribeCallback c msg s) = subscribeEventQueue s \<and>
         (\<exists>fmt. logged (subscribeCallback c msg s) =
            logged s @ [(DebugLevel, ''TOPIC: %s''), (ErrorLevel, fmt)]) \<and>
         published (subscribeCallback c msg s) = published s \<and>
         queried (subscribeCallback c msg s) = queried s \<and>
         fetched (subscribeCallback c msg s) = fetched s"
  using assms
  by (auto simp: subscribeCallback_def Debugf_def Errorf_def MQTTInvalid_def Let_def
      split: prod.splits sum.splits)

lemma decode_one_segment: "decodeTopicAPI ''/cql/client/c1'' = (''c1'', '''', '''')"
  by (simp add: decodeTopicAPI_def segments_one valid_check_cases)

theorem subscribeCallback_drops_malformed_witness:
  "subscribeEventQueue
     (subscribeCallback (test_client (\<lambda>n. ok_token) [])
        \<lparr>Topic = ''/cql/client/c1'', MsgPayload = []\<rparr> idle) = [] \<and>
   subscribeEventQueue
     (subscribeCallback (test_client (\<lambda>n. ok_token) [])
        \<lparr>Topic = ''/cql/client/c1/db1/replay'', MsgPayload = [123]\<rparr> idle) = [] \<and>
   (\<exists>fmt. logged
     (subscribeCallback (test_client (\<lambda>n. ok_token) [])
        \<lparr>Topic = ''/cql/client/c1/db1/replay'', MsgPayload = [123]\<rparr> idle) =
      [(DebugLevel, ''TOPIC: %s''), (ErrorLevel, fmt)])"
proof -
  have a: "snd (snd (decodeTopicAPI (Topic \<lparr>Topic = ''/cql/client/c1'', MsgPayload = []\<rparr>))) =
        MQTTInvalid"
    by (simp add: decode_one_segment MQTTInvalid_def)
  have b: "\<exists>err. Unmarshal (test_client (\<lambda>n. ok_token) [])
        (MsgPayload \<lparr>Topic = ''/cql/client/c1/db1/replay'', MsgPayload = [123]\<rparr>) = Inl err"
    by (simp add: test_client_def)
  show ?thesis
    using subscribeCallback_drops_malformed [OF disjI1, OF a, of "test_client (\<lambda>n. ok_token) []" idle]
      subscribeCallback_drops_malformed [OF disjI2, OF b, of idle]
    by (simp add: idle_def)
qed

text \<open>
  C9. The consumer loop routes by intent: a write event to the write handler, a replay
  event to the replay handler, a create event to the stub, which adds one debug entry to
  the log and changes nothing else, and any other intent leaves the state as it was but
  for one error entry in the log.
\<close>

theorem dispatch_routes:
  "(ApiName e = ''write'' \<longrightarrow> dispatch c e s = Some (processWriteEvent c e s)) \<and>
   (ApiName e = ''replay'' \<longrightarrow> dispatch c e s = processReplayEvent c e s) \<and>
   (ApiName e = ''create'' \<longrightarrow>
      dispatch c e s = Some (processCreateEvent c e s) \<and>
      processCreateEvent c e s =
        s\<lparr>logged := logged s @ [(DebugLevel, ''Create API does not support yet.'')]\<rparr>) \<and>
   (ApiName e \<noteq> ''write'' \<and> ApiName e \<noteq> ''replay'' \<and> ApiName e \<noteq> ''create'' \<longrightarrow>
      dispatch c e s = Some (s\<lparr>logged := logged s @ [(ErrorLevel, ''Unknow API name %s'')]\<rparr>))"
  by (simp add: dispatch_def processCreateEvent_def Debugf_def Errorf_def
      MQTTWrite_def MQTTReplay_def MQTTCreate_def)

theorem dispatch_routes_witness:
  "dispatch two_block_client (test_event ''write'' 0 0 0 0) idle =
     Some (processWriteEvent two_block_client (test_event ''write'' 0 0 0 0) idle) \<and>
   dispatch two_block_client (test_event ''replay'' 0 0 0 0) idle =
     processReplayEvent two_block_client (test_event ''replay'' 0 0 0 0) idle \<and>
   dispatch two_block_client (test_event ''create'' 0 0 0 0) idle =
     Some (idle\<lparr>logged := [(DebugLevel, ''Create API does not support yet.'')]\<rparr>) \<and>
   dispatch two_block_client (test_event ''newest'' 0 0 0 0) idle =
     Some (idle\<lparr>logged := [(ErrorLevel, ''Unknow API name %s'')]\<rparr>)"
  using dispatch_routes [of "test_event ''write'' 0 0 0 0" two_block_client idle]
    dispatch_routes [of "test_event ''replay'' 0 0 0 0" two_block_client idle]
    dispatch_routes [of "test_event ''create'' 0 0 0 0" two_block_client idle]
    dispatch_routes [of "test_event ''newest'' 0 0 0 0" two_block_client idle]
  by (simp add: test_event_def idle_def)

subsection \<open>Properties of the write handler\<close>







subsection \<open>Properties of the replay handler\<close>

text \<open>
  C1, at its input. Over the chain of two blocks with transaction indices 0, 1, 2 and
  0, 1, the request from block 0, index 1 to block 1, index 0 reads position \<open>-1\<close> in
  both rounds of the block loop, so both rounds see the last block: the handler
  publishes (block 1, index 1) and then (block 1, index 0), and nothing of block 0.
\<close>

theorem replay_two_block_chain_publishes:
  "\<exists>s'. processReplayEvent two_block_client (test_event ''replay'' 0 1 1 0) idle = Some s' \<and>
     published s' =
       [(''/cql/miner/n1/db1/replay/c1'', 1, True, [1, 1]),
        (''/cql/miner/n1/db1/replay/c1'', 1, True, [1, 0])] \<and>
     fetched s' = [(''db1'', - 1), (''db1'', - 1)]"
  by (simp add: processReplayEvent_def two_block_client_def test_client_def test_event_def
      idle_def Load_def test_db_def test_block_def test_tx_def replay_blocks.simps
      chain_of_blocks_def Debugf_def Errorf_def range_filter_def tx_payload_def PublishDSN_def
      Publish_def test_encode_def ok_token_def MQTTReplay_def MQTTNewest_def publishPrefix_def
      upt_rec Let_def word_sle_eq word_sless_alt)











subsection \<open>Properties of the periodic publisher\<close>

text \<open>
  C4, at the failing input. Two databases are registered; the newest block of the first
  holds two transactions and the transport fails the publish of the first one (the
  publisher returns that error) and accepts the later ones. The tick still reads the
  chain of the second database and publishes its transaction: the error of the first
  publish is overwritten by the nil of the second.
\<close>

theorem updateBlockTick_goes_on_after_failed_publish:
  "fst (PublishDSN two_db_client MQTTNewest ''db1'' (tx_payload 0 0 (test_tx ''db1'' ''c1'' 0))
          ''c1'' (idle\<lparr>fetched := [(''db1'', - 1)]\<rparr>)) = Some (Err ''not acknowledged'') \<and>
   fetched (updateBlockTick two_db_client idle) = [(''db1'', - 1), (''db2'', - 1)] \<and>
   published (updateBlockTick two_db_client idle) =
     [(''/cql/miner/n1/db1/newest'', 1, True, [0, 0]),
      (''/cql/miner/n1/db1/newest'', 1, True, [0, 1]),
      (''/cql/miner/n1/db2/newest'', 1, True, [0, 0])] \<and>
   logged (updateBlockTick two_db_client idle) =
     [(ErrorLevel, ''MQTT publish newest api failed, databaseID: %v, payload: %v, err: %v'')]"
  by (simp add: updateBlockTick_def update_db_def two_db_client_def test_client_def idle_def
      test_db_def test_block_def test_tx_def chain_of_blocks_def Errorf_def tx_payload_def
      PublishDSN_def Publish_def test_encode_def ok_token_def unacked_token_def MQTTNewest_def
      publishPrefix_def upt_rec Let_def word_sless_alt)

end
